theory Spec2Isabelle
  imports Complex_Main "HOL-Library.Word"
begin

unbundle bit_operations_syntax

section \<open>FA sanitization (deterministic tractography notebook, cell 4)\<close>

text \<open>
  The notebook takes the fractional-anisotropy map of the tensor fit and overwrites its
  not-a-number voxels in place:
  \<^verbatim>\<open>
  fa_img = dti_fit.fa
  ...
  fa_img[np.isnan(fa_img)] = 0
  \<close>
  The map is an array of IEEE 754 binary64 values. A value is modelled by its 64 bits
  (sign, 11 exponent bits, 52 fraction bits), so that the classes of the standard are
  decided on the representation and no rounding is involved. The array is modelled
  by its element buffer: the statement acts on every element alone, whatever the shape.
\<close>

type_synonym float64 = "64 word"

definition exponent_bits :: "float64 \<Rightarrow> 64 word" where
  "exponent_bits w = drop_bit 52 w AND 0x7FF"

definition fraction_bits :: "float64 \<Rightarrow> 64 word" where
  "fraction_bits w = w AND 0xFFFFFFFFFFFFF"

text \<open>\<open>np.isnan\<close>: all exponent bits set and a fraction that is not zero.\<close>

definition isnan :: "float64 \<Rightarrow> bool" where
  "isnan w \<longleftrightarrow> exponent_bits w = 0x7FF \<and> fraction_bits w \<noteq> 0"

text \<open>\<open>np.isfinite\<close>: neither an infinity nor a NaN, that is, an exponent not all ones.\<close>

definition isfinite :: "float64 \<Rightarrow> bool" where
  "isfinite w \<longleftrightarrow> exponent_bits w \<noteq> 0x7FF"

text \<open>The literal \<open>0\<close> stored into a binary64 array is positive zero, all bits clear.\<close>

definition zero64 :: float64 where
  "zero64 = 0"

definition pos_inf :: float64 where
  "pos_inf = 0x7FF0000000000000"

definition quiet_nan :: float64 where
  "quiet_nan = 0x7FF8000000000000"

definition one_half :: float64 where
  "one_half = 0x3FE0000000000000"

text \<open>\<open>np.isnan(a)\<close> on an array: the boolean mask of the same shape.\<close>

definition isnan_arr :: "float64 list \<Rightarrow> bool list" where
  "isnan_arr a = map isnan a"

datatype np_error = IndexError

text \<open>
  \<open>a[mask] = v\<close> with a boolean mask and a scalar \<open>v\<close>: the elements under a true
  mask entry get \<open>v\<close>, the others stay. A mask of another shape raises IndexError.
\<close>

fun setitem_mask :: "'a list \<Rightarrow> bool list \<Rightarrow> 'a \<Rightarrow> np_error + 'a list" where
  "setitem_mask [] [] v = Inr []"
| "setitem_mask (x # xs) (m # ms) v =
     (case setitem_mask xs ms v of
        Inl e \<Rightarrow> Inl e
      | Inr ys \<Rightarrow> Inr ((if m then v else x) # ys))"
| "setitem_mask _ _ v = Inl IndexError"

definition sanitize_fa :: "float64 list \<Rightarrow> np_error + float64 list" where
  "sanitize_fa fa_img = setitem_mask fa_img (isnan_arr fa_img) zero64"

section \<open>The response-function file (constrained spherical deconvolution episode)\<close>

text \<open>
  The episode estimates the fibre response function and writes it to a text file:
  \<^verbatim>\<open>
  response, ratio = auto_response(gtab, data, roi_radius=10, fa_thr=0.7)
  ...
  np.savetxt(os.path.join(out_dir, 'frf.txt'), np.hstack([response[0], response[1]]))
  \<close>
  and documents the value: the \<open>response\<close> tuple has two elements, the first an array
  with the eigenvalues of the response function, the second the average S0 signal, printed
  as \<open>(array([0.00159258, 0.00033926, 0.00033926]), 201.48318)\<close>.
  An operand of \<open>np.hstack\<close> is a scalar or a one-dimensional array here.
\<close>

datatype 'a ndarray = Scalar 'a | Array1 "'a list"

text \<open>\<open>np.atleast_1d\<close>, which \<open>np.hstack\<close> applies to every operand: a scalar becomes
  an array of one element.\<close>

fun atleast_1d :: "'a ndarray \<Rightarrow> 'a list" where
  "atleast_1d (Scalar x) = [x]"
| "atleast_1d (Array1 xs) = xs"

text \<open>\<open>np.hstack\<close> on one-dimensional operands concatenates them.\<close>

definition hstack :: "'a ndarray list \<Rightarrow> 'a list" where
  "hstack arrs = concat (map atleast_1d arrs)"

text \<open>\<open>np.savetxt\<close> writes a one-dimensional array as a column: one value on each row of
  the file. The file is modelled by its rows of values; the number format is left out.\<close>

definition savetxt :: "'a list \<Rightarrow> 'a list list" where
  "savetxt X = map (\<lambda>x. [x]) X"

type_synonym 'a response = "'a list \<times> 'a"

definition save_frf :: "'a response \<Rightarrow> 'a list list" where
  "save_frf response = savetxt (hstack [Array1 (fst response), Scalar (snd response)])"

text \<open>The response the episode prints.\<close>

definition printed_response :: "real response" where
  "printed_response = ([0.00159258, 0.00033926, 0.00033926], 201.48318)"

section \<open>The syntax of the notebook's cells\<close>

text \<open>
  A code cell of the notebook is Python source, compiled as a whole before any of it
  runs. The cells of the deterministic tractography notebook are read by a lexer and a
  recursive-descent parser for the part of Python's grammar that the first cell needs:
  \<^verbatim>\<open>
  stmt      ::= 'from' dotted 'import' NAME ['as' NAME] (',' NAME ['as' NAME])*
              | 'import' dotted ['as' NAME]
              | exprlist ['=' exprlist]
  exprlist  ::= expr (',' expr)*
  expr      ::= atom trailer*
  atom      ::= NAME | STRING | NUMBER | 'True' | 'False' | 'None'
  trailer   ::= '.' NAME | '(' [arglist] ')' | '[' expr ']'
  arglist   ::= argument (',' argument)* [',']
  argument  ::= [NAME '='] expr
  \<close>
  The parser has three ways to fail. \<open>SyntaxError\<close> is returned only where no program
  of Python 3.7 continues the input read so far: a name or a number right after a
  complete expression (there the grammar admits an operator, a keyword, a bracket, a
  comma or the end of the construct), a point not followed by a name, a positional
  argument after a keyword argument, a keyword argument given twice, an assignment to
  something that is no target. \<open>Unsupported\<close> is returned for input outside the part
  modelled, valid or not. \<open>OutOfFuel\<close> is returned when the recursion bound is used up.
  The first two carry the input left at the point of failure.
\<close>

datatype token =
    NAME string | KEYWORD string | STRING string | NUMBER string
  | LPAR | RPAR | LSQB | RSQB | DOT | COMMA | EQUAL | OP string

datatype syntax_error =
    SyntaxError "token list"
  | Unsupported "token list"
  | OutOfFuel

text \<open>The reserved words of Python 3.7, the version the notebook's metadata names.\<close>

definition py_keywords :: "string list" where
  "py_keywords = [''False'', ''None'', ''True'', ''and'', ''as'', ''assert'', ''async'', ''await'',
     ''break'', ''class'', ''continue'', ''def'', ''del'', ''elif'', ''else'', ''except'',
     ''finally'', ''for'', ''from'', ''global'', ''if'', ''import'', ''in'', ''is'', ''lambda'',
     ''nonlocal'', ''not'', ''or'', ''pass'', ''raise'', ''return'', ''try'', ''while'', ''with'',
     ''yield'']"

definition is_digit :: "char \<Rightarrow> bool" where
  "is_digit c \<longleftrightarrow> (let n = (of_char c :: nat) in 48 \<le> n \<and> n \<le> 57)"

definition is_name_start :: "char \<Rightarrow> bool" where
  "is_name_start c \<longleftrightarrow>
     (let n = (of_char c :: nat) in (65 \<le> n \<and> n \<le> 90) \<or> (97 \<le> n \<and> n \<le> 122) \<or> n = 95)"

definition is_name_char :: "char \<Rightarrow> bool" where
  "is_name_char c \<longleftrightarrow> is_name_start c \<or> is_digit c"

definition is_number_char :: "char \<Rightarrow> bool" where
  "is_number_char c \<longleftrightarrow> is_name_char c \<or> c = CHR ''.''"

definition is_op_char :: "char \<Rightarrow> bool" where
  "is_op_char c \<longleftrightarrow> c \<in> set ''+-*/%<>=!&|^~@:''"

definition word_token :: "string \<Rightarrow> token" where
  "word_token w = (if w \<in> set py_keywords then KEYWORD w else NAME w)"

definition op_token :: "string \<Rightarrow> token" where
  "op_token w = (if w = ''='' then EQUAL else OP w)"

definition punct_token :: "char \<Rightarrow> token" where
  "punct_token c =
     (if c = CHR ''('' then LPAR else if c = CHR '')'' then RPAR
      else if c = CHR ''['' then LSQB else if c = CHR '']'' then RSQB
      else if c = CHR ''.'' then DOT else if c = CHR '','' then COMMA
      else OP [c])"

text \<open>
  The lexer of one source line. Blanks separate tokens, \<open>#\<close> starts a comment that runs
  to the end of the line, a quote starts a string literal that runs to the next quote of
  the same kind, a letter or an underscore starts a name or keyword, a digit starts a
  number, a run of operator characters is one operator, \<open>=\<close> alone being the sign of
  assignment and of keyword arguments. A backslash, and a line that ends inside a string
  literal, are outside the part modelled (escapes, continued lines, triple quotes).
\<close>

function tokenize :: "string \<Rightarrow> syntax_error + token list" where
  "tokenize [] = Inr []"
| "tokenize (c # cs) =
     (if c = CHR '' '' then tokenize cs
      else if c = CHR ''#'' then Inr []
      else if c = CHR 0x5C then Inl (Unsupported [])
      else if is_name_start c then
        (case tokenize (dropWhile is_name_char cs) of
           Inl e \<Rightarrow> Inl e
         | Inr ts \<Rightarrow> Inr (word_token (c # takeWhile is_name_char cs) # ts))
      else if is_digit c then
        (case tokenize (dropWhile is_number_char cs) of
           Inl e \<Rightarrow> Inl e
         | Inr ts \<Rightarrow> Inr (NUMBER (c # takeWhile is_number_char cs) # ts))
      else if c = CHR 0x27 \<or> c = CHR 0x22 then
        (case dropWhile (\<lambda>d. d \<noteq> c) cs of
           [] \<Rightarrow> Inl (Unsupported [])
         | _ # rest \<Rightarrow>
             (if CHR 0x5C \<in> set (takeWhile (\<lambda>d. d \<noteq> c) cs) then Inl (Unsupported [])
              else case tokenize rest of
                Inl e \<Rightarrow> Inl e
              | Inr ts \<Rightarrow> Inr (STRING (takeWhile (\<lambda>d. d \<noteq> c) cs) # ts)))
      else if is_op_char c then
        (case tokenize (dropWhile is_op_char cs) of
           Inl e \<Rightarrow> Inl e
         | Inr ts \<Rightarrow> Inr (op_token (c # takeWhile is_op_char cs) # ts))
      else
        (case tokenize cs of
           Inl e \<Rightarrow> Inl e
         | Inr ts \<Rightarrow> Inr (punct_token c # ts)))"
  by pat_completeness auto
termination
proof (relation "measure length", goal_cases)
  case 1
  show ?case by simp
next
  case (2 c cs)
  then show ?case by simp
next
  case (3 c cs)
  then show ?case by (simp add: le_imp_less_Suc length_dropWhile_le)
next
  case (4 c cs)
  then show ?case by (simp add: le_imp_less_Suc length_dropWhile_le)
next
  case (5 c cs q rest)
  have "length (dropWhile (\<lambda>d. d \<noteq> c) cs) \<le> length cs"
    by (rule length_dropWhile_le)
  with 5 show ?case by simp
next
  case (6 c cs)
  then show ?case by (simp add: le_imp_less_Suc length_dropWhile_le)
next
  case (7 c cs)
  then show ?case by simp
qed

text \<open>Expressions and statements, after the classes of Python's \<open>ast\<close> module.\<close>

datatype expr =
    Name string
  | Str string
  | Num string
  | Constant string
  | Attribute expr string
  | Call expr "expr list" "(string \<times> expr) list"
  | Subscript expr expr
  | ListE "expr list"
  | Tuple "expr list"
  | BinOp expr string expr
  | Compare expr string expr
  | Not expr

datatype stmt =
    Import string "string option"
  | ImportFrom string "(string \<times> string option) list"
  | Assign expr expr
  | Expr expr
  | If expr "stmt list"
  | Magic string

type_synonym 'a parse = "syntax_error + ('a \<times> token list)"

text \<open>Number literals read: digits, with at most one point among them.\<close>

definition is_decimal :: "string \<Rightarrow> bool" where
  "is_decimal s \<longleftrightarrow> list_all is_number_char s \<and> list_all (\<lambda>c. \<not> is_name_start c) s \<and>
     length (filter (\<lambda>c. c = CHR ''.'') s) \<le> 1"

fun parse_atom :: "token list \<Rightarrow> expr parse" where
  "parse_atom (NAME x # ts) = Inr (Name x, ts)"
| "parse_atom (STRING s # ts) = Inr (Str s, ts)"
| "parse_atom (NUMBER s # ts) =
     (if is_decimal s then Inr (Num s, ts) else Inl (Unsupported (NUMBER s # ts)))"
| "parse_atom (KEYWORD k # ts) =
     (if k = ''True'' \<or> k = ''False'' \<or> k = ''None'' then Inr (Constant k, ts)
      else Inl (Unsupported (KEYWORD k # ts)))"
| "parse_atom ts = Inl (Unsupported ts)"

text \<open>The error for input that does not continue after a complete expression.\<close>

fun after_expr :: "token list \<Rightarrow> syntax_error" where
  "after_expr (NAME x # ts) = SyntaxError (NAME x # ts)"
| "after_expr (NUMBER x # ts) = SyntaxError (NUMBER x # ts)"
| "after_expr ts = Unsupported ts"

text \<open>A positional argument after a keyword argument is a syntax error, and so is a
  keyword given twice.\<close>

fun add_arg :: "string option \<times> expr \<Rightarrow> expr list \<times> (string \<times> expr) list \<Rightarrow>
    (expr list \<times> (string \<times> expr) list) option" where
  "add_arg (Some k, v) (args, kws) =
     (if k \<in> set (map fst kws) then None else Some (args, kws @ [(k, v)]))"
| "add_arg (None, v) (args, kws) = (if kws = [] then Some (args @ [v], kws) else None)"

text \<open>
  Expressions, trailers and argument lists call each other. The first argument bounds
  the depth of the recursion; every call passes a smaller bound on.
\<close>

fun parse_expr :: "nat \<Rightarrow> token list \<Rightarrow> expr parse"
and parse_trailers :: "nat \<Rightarrow> expr \<Rightarrow> token list \<Rightarrow> expr parse"
and parse_arg :: "nat \<Rightarrow> token list \<Rightarrow> (string option \<times> expr) parse"
and parse_args :: "nat \<Rightarrow> expr list \<times> (string \<times> expr) list \<Rightarrow> token list \<Rightarrow>
    (expr list \<times> (string \<times> expr) list) parse"
where
  "parse_expr 0 ts = Inl OutOfFuel"
| "parse_expr (Suc n) ts =
     (case parse_atom ts of
        Inl e \<Rightarrow> Inl e
      | Inr (a, r) \<Rightarrow> parse_trailers n a r)"
| "parse_trailers 0 e ts = Inl OutOfFuel"
| "parse_trailers (Suc n) e ts =
     (case ts of
        DOT # NAME x # r \<Rightarrow> parse_trailers n (Attribute e x) r
      | DOT # [] \<Rightarrow> Inl (Unsupported [])
      | DOT # r \<Rightarrow> Inl (SyntaxError r)
      | LPAR # r \<Rightarrow>
          (case parse_args n ([], []) r of
             Inl err \<Rightarrow> Inl err
           | Inr ((args, kws), r') \<Rightarrow> parse_trailers n (Call e args kws) r')
      | LSQB # r \<Rightarrow>
          (case parse_expr n r of
             Inl err \<Rightarrow> Inl err
           | Inr (i, RSQB # r') \<Rightarrow> parse_trailers n (Subscript e i) r'
           | Inr (i, r') \<Rightarrow> Inl (after_expr r'))
      | _ \<Rightarrow> Inr (e, ts))"
| "parse_arg 0 ts = Inl OutOfFuel"
| "parse_arg (Suc n) ts =
     (case ts of
        NAME k # EQUAL # r \<Rightarrow>
          (case parse_expr n r of
             Inl err \<Rightarrow> Inl err
           | Inr (v, r') \<Rightarrow> Inr ((Some k, v), r'))
      | _ \<Rightarrow>
          (case parse_expr n ts of
             Inl err \<Rightarrow> Inl err
           | Inr (v, r') \<Rightarrow> Inr ((None, v), r')))"
| "parse_args 0 acc ts = Inl OutOfFuel"
| "parse_args (Suc n) acc ts =
     (case ts of
        RPAR # r \<Rightarrow> Inr (acc, r)
      | _ \<Rightarrow>
          (case parse_arg n ts of
             Inl err \<Rightarrow> Inl err
           | Inr (a, r) \<Rightarrow>
               (case add_arg a acc of
                  None \<Rightarrow> Inl (SyntaxError ts)
                | Some acc' \<Rightarrow>
                    (case r of
                       COMMA # r' \<Rightarrow> parse_args n acc' r'
                     | RPAR # r' \<Rightarrow> Inr (acc', r')
                     | _ \<Rightarrow> Inl (after_expr r)))))"

fun parse_exprlist :: "nat \<Rightarrow> token list \<Rightarrow> (expr list) parse" where
  "parse_exprlist 0 ts = Inl OutOfFuel"
| "parse_exprlist (Suc n) ts =
     (case parse_expr (Suc n) ts of
        Inl err \<Rightarrow> Inl err
      | Inr (e, COMMA # r) \<Rightarrow>
          (case parse_exprlist n r of
             Inl err \<Rightarrow> Inl err
           | Inr (es, r') \<Rightarrow> Inr (e # es, r'))
      | Inr (e, r) \<Rightarrow> Inr ([e], r))"

fun tuple_of :: "expr list \<Rightarrow> expr" where
  "tuple_of [e] = e"
| "tuple_of es = Tuple es"

definition parse_testlist :: "token list \<Rightarrow> expr parse" where
  "parse_testlist ts =
     (case parse_exprlist (2 * length ts + 2) ts of
        Inl err \<Rightarrow> Inl err
      | Inr (es, r) \<Rightarrow> Inr (tuple_of es, r))"

fun is_target :: "expr \<Rightarrow> bool" where
  "is_target (Name x) = True"
| "is_target (Attribute e a) = True"
| "is_target (Subscript e i) = True"
| "is_target (Tuple es) = list_all is_target es"
| "is_target _ = False"

fun parse_dotted :: "token list \<Rightarrow> (string \<times> token list) option" where
  "parse_dotted [] = None"
| "parse_dotted (t # ts) =
     (case t of
        NAME x \<Rightarrow>
          (case ts of
             DOT # r \<Rightarrow>
               (case parse_dotted r of
                  None \<Rightarrow> None
                | Some (d, r') \<Rightarrow> Some (x @ ''.'' @ d, r'))
           | _ \<Rightarrow> Some (x, ts))
      | _ \<Rightarrow> None)"

fun parse_as :: "token list \<Rightarrow> (string option \<times> token list) option" where
  "parse_as (KEYWORD k # ts) =
     (if k \<noteq> ''as'' then None
      else case ts of NAME y # r \<Rightarrow> Some (Some y, r) | _ \<Rightarrow> None)"
| "parse_as ts = Some (None, ts)"

fun parse_import_names :: "token list \<Rightarrow> (string \<times> string option) list option" where
  "parse_import_names [] = None"
| "parse_import_names (t # ts) =
     (case t of
        NAME x \<Rightarrow>
          (case ts of
             [] \<Rightarrow> Some [(x, None)]
           | COMMA # r \<Rightarrow> map_option ((#) (x, None)) (parse_import_names r)
           | KEYWORD k # r \<Rightarrow>
               (case r of
                  NAME y # r' \<Rightarrow>
                    (if k \<noteq> ''as'' then None
                     else case r' of
                       [] \<Rightarrow> Some [(x, Some y)]
                     | COMMA # r'' \<Rightarrow> map_option ((#) (x, Some y)) (parse_import_names r'')
                     | _ \<Rightarrow> None)
                | _ \<Rightarrow> None)
           | _ \<Rightarrow> None)
      | _ \<Rightarrow> None)"

definition parse_expr_stmt :: "token list \<Rightarrow> syntax_error + stmt" where
  "parse_expr_stmt ts =
     (case parse_testlist ts of
        Inl err \<Rightarrow> Inl err
      | Inr (lhs, []) \<Rightarrow> Inr (Expr lhs)
      | Inr (lhs, EQUAL # r) \<Rightarrow>
          (if \<not> is_target lhs then Inl (SyntaxError (EQUAL # r))
           else case parse_testlist r of
             Inl err \<Rightarrow> Inl err
           | Inr (rhs, []) \<Rightarrow> Inr (Assign lhs rhs)
           | Inr (rhs, r') \<Rightarrow> Inl (after_expr r'))
      | Inr (lhs, r) \<Rightarrow> Inl (after_expr r))"

definition parse_import :: "token list \<Rightarrow> syntax_error + stmt" where
  "parse_import ts =
     (case parse_dotted ts of
        None \<Rightarrow> Inl (Unsupported ts)
      | Some (m, r) \<Rightarrow>
          (case parse_as r of
             Some (a, []) \<Rightarrow> Inr (Import m a)
           | _ \<Rightarrow> Inl (Unsupported r)))"

definition parse_from :: "token list \<Rightarrow> syntax_error + stmt" where
  "parse_from ts =
     (case parse_dotted ts of
        Some (m, KEYWORD k # r) \<Rightarrow>
          (if k \<noteq> ''import'' then Inl (Unsupported ts)
           else case parse_import_names r of
             None \<Rightarrow> Inl (Unsupported r)
           | Some ns \<Rightarrow> Inr (ImportFrom m ns))
      | _ \<Rightarrow> Inl (Unsupported ts))"

definition parse_stmt :: "token list \<Rightarrow> syntax_error + stmt" where
  "parse_stmt ts =
     (case ts of
        KEYWORD k # r \<Rightarrow>
          (if k = ''from'' then parse_from r
           else if k = ''import'' then parse_import r
           else parse_expr_stmt ts)
      | _ \<Rightarrow> parse_expr_stmt ts)"

text \<open>
  A cell whose statements each stand on one line without indentation: blank lines and
  comment lines are skipped, the first line that fails gives the error of the cell, with
  its number in the cell, counted from 1.
\<close>

fun compile_lines :: "nat \<Rightarrow> string list \<Rightarrow> (nat \<times> syntax_error) + stmt list" where
  "compile_lines k [] = Inr []"
| "compile_lines k (l # ls) =
     (case tokenize l of
        Inl err \<Rightarrow> Inl (k, err)
      | Inr [] \<Rightarrow> compile_lines (Suc k) ls
      | Inr ts \<Rightarrow>
          (if take 1 l = '' '' then Inl (k, Unsupported ts)
           else case parse_stmt ts of
             Inl err \<Rightarrow> Inl (k, err)
           | Inr s \<Rightarrow>
               (case compile_lines (Suc k) ls of
                  Inl e \<Rightarrow> Inl e
                | Inr ss \<Rightarrow> Inr (s # ss))))"

definition compile_cell :: "string list \<Rightarrow> (nat \<times> syntax_error) + stmt list" where
  "compile_cell src = compile_lines 1 src"

text \<open>
  The source of the first code cell, the dataset locator, as the notebook has it (lines
  19 to 37 of the \<open>.ipynb\<close> file). Lines 12 and 13 of the cell have no comma between
  \<open>subject=subj\<close> and \<open>suffix='preproc'\<close>.
\<close>

definition cell1_source :: "string list" where
  \<open>cell1_source =
    [''from bids.layout import BIDSLayout'',
     ''from dipy.io.gradients import read_bvals_bvecs'',
     ''from dipy.core.gradients import gradient_table'',
     ''from nilearn import image as img'',
     ''import nibabel as nib'',
     [],
     ''layout = BIDSLayout("../../data/ds000221/derivatives", validate=False)'',
     [],
     ''subj = '010006'' @ [CHR 0x27],
     [],
     ''dwi = layout.get(subject=subj, suffix='preproc', extension='nii.gz', return_type='file')[0]'',
     ''bval = layout.get(subject=subj suffix='preproc', extension='bval', return_type='file')[0]'',
     ''bvec = layout.get(subject=subj suffix='preproc', extension='bvec', return_type='file')[0]'',
     [],
     ''dwi_img = img.load_img(dwi)'',
     ''affine = dwi_img.affine'',
     [],
     ''gt_bvals, gt_bvecs = read_bvals_bvecs(bval, bvec)'',
     ''gtab = gradient_table(gt_bvals, gt_bvecs)'']\<close>

text \<open>The same cell with the comma put in on both lines, as line 11 of the cell has it.\<close>

definition cell1_repaired :: "string list" where
  \<open>cell1_repaired = cell1_source
     [11 := ''bval = layout.get(subject=subj, suffix='preproc', extension='bval', return_type='file')[0]'',
      12 := ''bvec = layout.get(subject=subj, suffix='preproc', extension='bvec', return_type='file')[0]'']\<close>

section \<open>Name resolution in a run of the notebook\<close>

text \<open>
  Running the notebook from top to bottom executes its code cells in order in one
  namespace and stops at the first cell that raises. The model follows the names only:
  the namespace is the list of names bound so far, an import or an assignment binds names,
  and evaluating an expression looks its names up in evaluation order, raising
  \<open>NameError\<close> at the first one that is not bound. Calls into the libraries and the
  imports themselves are taken to return normally, so the run of the model is the longest
  run the notebook can have.
\<close>

type_synonym namespace = "string list"

datatype run_error = NameError string

text \<open>The names an expression reads, in the order Python evaluates them: the callee
  before the arguments, positional arguments before keyword arguments, the subscripted
  value before the subscript.\<close>

fun loads :: "expr \<Rightarrow> string list" where
  "loads (Name x) = [x]"
| "loads (Str s) = []"
| "loads (Num s) = []"
| "loads (Constant c) = []"
| "loads (Attribute e a) = loads e"
| "loads (Call f args kws) =
     loads f @ concat (map loads args) @ concat (map (\<lambda>kv. loads (snd kv)) kws)"
| "loads (Subscript e i) = loads e @ loads i"
| "loads (ListE es) = concat (map loads es)"
| "loads (Tuple es) = concat (map loads es)"
| "loads (BinOp l opr r) = loads l @ loads r"
| "loads (Compare l opr r) = loads l @ loads r"
| "loads (Not e) = loads e"

definition evaluate :: "namespace \<Rightarrow> expr \<Rightarrow> run_error + unit" where
  "evaluate ns e =
     (case find (\<lambda>x. x \<notin> set ns) (loads e) of
        None \<Rightarrow> Inr ()
      | Some x \<Rightarrow> Inl (NameError x))"

text \<open>Binding an assignment target. A name is bound; a subscript or attribute target
  reads its value and subscript and binds nothing.\<close>

fun store :: "expr \<Rightarrow> namespace \<Rightarrow> run_error + namespace"
and store_all :: "expr list \<Rightarrow> namespace \<Rightarrow> run_error + namespace" where
  "store (Name x) ns = Inr (x # ns)"
| "store (Tuple es) ns = store_all es ns"
| "store (ListE es) ns = store_all es ns"
| "store (Attribute e a) ns = (case evaluate ns e of Inl err \<Rightarrow> Inl err | Inr _ \<Rightarrow> Inr ns)"
| "store (Subscript e i) ns =
     (case evaluate ns e of
        Inl err \<Rightarrow> Inl err
      | Inr _ \<Rightarrow> (case evaluate ns i of Inl err \<Rightarrow> Inl err | Inr _ \<Rightarrow> Inr ns))"
| "store (Str s) ns = Inr ns"
| "store (Num s) ns = Inr ns"
| "store (Constant s) ns = Inr ns"
| "store (Call f a k) ns = Inr ns"
| "store (BinOp l opr r) ns = Inr ns"
| "store (Compare l opr r) ns = Inr ns"
| "store (Not e) ns = Inr ns"
| "store_all [] ns = Inr ns"
| "store_all (e # es) ns =
     (case store e ns of Inl err \<Rightarrow> Inl err | Inr ns' \<Rightarrow> store_all es ns')"

definition top_package :: "string \<Rightarrow> string" where
  "top_package m = takeWhile (\<lambda>c. c \<noteq> CHR ''.'') m"

definition import_binds :: "string \<Rightarrow> string option \<Rightarrow> string" where
  "import_binds m a = (case a of Some y \<Rightarrow> y | None \<Rightarrow> top_package m)"

definition from_binds :: "(string \<times> string option) list \<Rightarrow> string list" where
  "from_binds names = map (\<lambda>(x, a). case a of Some y \<Rightarrow> y | None \<Rightarrow> x) names"

text \<open>
  Statements. The value of an assignment is evaluated before its target. Whether the
  test of an \<open>if\<close> holds depends on the libraries and the file system; it is given by
  the parameter \<open>tv\<close>, and the theorems hold for every \<open>tv\<close>.
\<close>

fun exec_stmt :: "(expr \<Rightarrow> bool) \<Rightarrow> stmt \<Rightarrow> namespace \<Rightarrow> run_error + namespace"
and exec_block :: "(expr \<Rightarrow> bool) \<Rightarrow> stmt list \<Rightarrow> namespace \<Rightarrow> run_error + namespace" where
  "exec_stmt tv (Import m a) ns = Inr (import_binds m a # ns)"
| "exec_stmt tv (ImportFrom m names) ns = Inr (rev (from_binds names) @ ns)"
| "exec_stmt tv (Assign t v) ns =
     (case evaluate ns v of Inl err \<Rightarrow> Inl err | Inr _ \<Rightarrow> store t ns)"
| "exec_stmt tv (Expr e) ns =
     (case evaluate ns e of Inl err \<Rightarrow> Inl err | Inr _ \<Rightarrow> Inr ns)"
| "exec_stmt tv (If c body) ns =
     (case evaluate ns c of
        Inl err \<Rightarrow> Inl err
      | Inr _ \<Rightarrow> if tv c then exec_block tv body ns else Inr ns)"
| "exec_stmt tv (Magic m) ns = Inr ns"
| "exec_block tv [] ns = Inr ns"
| "exec_block tv (s # ss) ns =
     (case exec_stmt tv s ns of Inl err \<Rightarrow> Inl err | Inr ns' \<Rightarrow> exec_block tv ss ns')"

fun run_cells :: "(expr \<Rightarrow> bool) \<Rightarrow> nat \<Rightarrow> stmt list list \<Rightarrow> namespace \<Rightarrow>
    (nat \<times> run_error) + namespace" where
  "run_cells tv k [] ns = Inr ns"
| "run_cells tv k (c # cs) ns =
     (case exec_block tv c ns of
        Inl err \<Rightarrow> Inl (k, err)
      | Inr ns' \<Rightarrow> run_cells tv (Suc k) cs ns')"

definition run_notebook :: "(expr \<Rightarrow> bool) \<Rightarrow> namespace \<Rightarrow> stmt list list \<Rightarrow>
    (nat \<times> run_error) + namespace" where
  "run_notebook tv ns0 cells = run_cells tv 1 cells ns0"

text \<open>The names a statement can bind, whether or not it is reached.\<close>

fun binds :: "expr \<Rightarrow> string list" where
  "binds (Name x) = [x]"
| "binds (Tuple es) = concat (map binds es)"
| "binds (ListE es) = concat (map binds es)"
| "binds _ = []"

fun stmt_binds :: "stmt \<Rightarrow> string list" where
  "stmt_binds (Import m a) = [import_binds m a]"
| "stmt_binds (ImportFrom m names) = from_binds names"
| "stmt_binds (Assign t v) = binds t"
| "stmt_binds (Expr e) = []"
| "stmt_binds (If c body) = concat (map stmt_binds body)"
| "stmt_binds (Magic m) = []"

definition notebook_binds :: "stmt list list \<Rightarrow> string list" where
  "notebook_binds cells = concat (map (\<lambda>c. concat (map stmt_binds c)) cells)"

text \<open>
  The code cells of the notebook, in order. \<open>cell1\<close> is the dataset locator with the
  commas put in; the other cells are as the notebook has them. \<open>cell14\<close> is the final
  visualization cell (lines 256 to 283 of the \<open>.ipynb\<close> file), the last cell is empty.
  Comments are left out.
\<close>

definition cell1 :: "stmt list" where
  "cell1 =
    [ImportFrom ''bids.layout'' [(''BIDSLayout'', None)],
     ImportFrom ''dipy.io.gradients'' [(''read_bvals_bvecs'', None)],
     ImportFrom ''dipy.core.gradients'' [(''gradient_table'', None)],
     ImportFrom ''nilearn'' [(''image'', Some ''img'')],
     Import ''nibabel'' (Some ''nib''),
     Assign (Name ''layout'')
       (Call (Name ''BIDSLayout'') [Str ''../../data/ds000221/derivatives'']
          [(''validate'', Constant ''False'')]),
     Assign (Name ''subj'') (Str ''010006''),
     Assign (Name ''dwi'')
       (Subscript
          (Call (Attribute (Name ''layout'') ''get'') []
             [(''subject'', Name ''subj''), (''suffix'', Str ''preproc''),
              (''extension'', Str ''nii.gz''), (''return_type'', Str ''file'')])
          (Num ''0'')),
     Assign (Name ''bval'')
       (Subscript
          (Call (Attribute (Name ''layout'') ''get'') []
             [(''subject'', Name ''subj''), (''suffix'', Str ''preproc''),
              (''extension'', Str ''bval''), (''return_type'', Str ''file'')])
          (Num ''0'')),
     Assign (Name ''bvec'')
       (Subscript
          (Call (Attribute (Name ''layout'') ''get'') []
             [(''subject'', Name ''subj''), (''suffix'', Str ''preproc''),
              (''extension'', Str ''bvec''), (''return_type'', Str ''file'')])
          (Num ''0'')),
     Assign (Name ''dwi_img'') (Call (Attribute (Name ''img'') ''load_img'') [Name ''dwi''] []),
     Assign (Name ''affine'') (Attribute (Name ''dwi_img'') ''affine''),
     Assign (Tuple [Name ''gt_bvals'', Name ''gt_bvecs''])
       (Call (Name ''read_bvals_bvecs'') [Name ''bval'', Name ''bvec''] []),
     Assign (Name ''gtab'')
       (Call (Name ''gradient_table'') [Name ''gt_bvals'', Name ''gt_bvecs''] [])]"

definition cell2 :: "stmt list" where
  "cell2 =
    [Import ''dipy.reconst.dti'' (Some ''dti''),
     ImportFrom ''dipy.segment.mask'' [(''median_otsu'', None)],
     Assign (Name ''dwi_data'') (Call (Attribute (Name ''dwi_img'') ''get_data'') [] []),
     Assign (Tuple [Name ''dwi_data'', Name ''dwi_mask''])
       (Call (Name ''median_otsu'') [Name ''dwi_data'']
          [(''vol_idx'', ListE [Num ''0'']), (''numpass'', Num ''1'')]),
     Assign (Name ''dti_model'') (Call (Attribute (Name ''dti'') ''TensorModel'') [Name ''gtab''] []),
     Assign (Name ''dti_fit'')
       (Call (Attribute (Name ''dti_model'') ''fit'') [Name ''dwi_data'']
          [(''mask'', Name ''dwi_mask'')])]"

definition cell3 :: "stmt list" where
  "cell3 =
    [Assign (Name ''fa_img'') (Attribute (Name ''dti_fit'') ''fa''),
     Assign (Name ''evecs_img'') (Attribute (Name ''dti_fit'') ''evecs'')]"

definition cell4 :: "stmt list" where
  "cell4 =
    [Import ''numpy'' (Some ''np''),
     Assign (Subscript (Name ''fa_img'')
               (Call (Attribute (Name ''np'') ''isnan'') [Name ''fa_img''] []))
       (Num ''0'')]"

definition cell5 :: "stmt list" where
  "cell5 =
    [ImportFrom ''dipy.data'' [(''get_sphere'', None)],
     Assign (Name ''sphere'') (Call (Name ''get_sphere'') [Str ''symmetric362''] [])]"

definition cell6 :: "stmt list" where
  "cell6 =
    [ImportFrom ''dipy.direction'' [(''peaks_from_model'', None)],
     Assign (Name ''peak_indices'')
       (Call (Name ''peaks_from_model'') []
          [(''model'', Name ''dti_model''), (''data'', Name ''dwi_data''),
           (''sphere'', Name ''sphere''), (''relative_peak_threshold'', Num ''.2''),
           (''min_separation_angle'', Num ''25''), (''mask'', Name ''dwi_mask''),
           (''npeaks'', Num ''2'')])]"

definition cell7 :: "stmt list" where
  "cell7 =
    [ImportFrom ''dipy.tracking.stopping_criterion'' [(''ThresholdStoppingCriterion'', None)],
     Assign (Name ''stopping_criterion'')
       (Call (Name ''ThresholdStoppingCriterion'') [Name ''fa_img'', Num ''.2''] [])]"

definition cell8 :: "stmt list" where
  "cell8 =
    [ImportFrom ''dipy.tracking'' [(''utils'', None)],
     Assign (Name ''seed_mask'') (Call (Attribute (Name ''fa_img'') ''copy'') [] []),
     Assign (Subscript (Name ''seed_mask'') (Compare (Name ''seed_mask'') ''>='' (Num ''0.2'')))
       (Num ''1''),
     Assign (Subscript (Name ''seed_mask'') (Compare (Name ''seed_mask'') ''<'' (Num ''0.2'')))
       (Num ''0''),
     Assign (Name ''seeds'')
       (Call (Attribute (Name ''utils'') ''seeds_from_mask'') [Name ''seed_mask'']
          [(''affine'', Name ''affine''), (''density'', Num ''1'')])]"

definition cell9 :: "stmt list" where
  "cell9 =
    [ImportFrom ''dipy.tracking.local_tracking'' [(''LocalTracking'', None)],
     ImportFrom ''dipy.tracking.streamline'' [(''Streamlines'', None)],
     Assign (Name ''streamlines_generator'')
       (Call (Name ''LocalTracking'')
          [Name ''peak_indices'', Name ''stopping_criterion'', Name ''seeds'']
          [(''affine'', Name ''affine''), (''step_size'', Num ''.5'')]),
     Assign (Name ''streamlines'')
       (Call (Name ''Streamlines'') [Name ''streamlines_generator''] [])]"

definition cell10 :: "stmt list" where
  "cell10 =
    [ImportFrom ''dipy.io.stateful_tractogram''
       [(''Space'', None), (''StatefulTractogram'', None)],
     ImportFrom ''dipy.io.streamline'' [(''save_trk'', None)],
     Assign (Name ''sft'')
       (Call (Name ''StatefulTractogram'')
          [Name ''streamlines'', Name ''dwi_img'', Attribute (Name ''Space'') ''RASMM''] []),
     Expr (Call (Name ''save_trk'') [Name ''sft'', Str ''tractogram_EuDX.trk''] [])]"

definition cell11 :: "stmt list" where
  "cell11 =
    [ImportFrom ''dipy.io.streamline'' [(''load_tractogram'', None)],
     ImportFrom ''dipy.io.streamline'' [(''load_trk'', None)]]"

definition cell12 :: "stmt list" where
  "cell12 =
    [Assign (Name ''sft'')
       (Call (Name ''load_trk'') [Str ''tractogram_EuDX.trk'', Str ''same''] [])]"

definition cell13 :: "stmt list" where
  "cell13 =
    [Expr (Call (Attribute (Name ''sft'') ''to_vox'') [] []),
     Assign (Name ''streamlines'') (Attribute (Name ''sft'') ''streamlines'')]"

definition cell14 :: "stmt list" where
  "cell14 =
    [ImportFrom ''dipy.viz'' [(''window'', None), (''actor'', None), (''colormap'', None)],
     Assign (Name ''streamlines_actor'')
       (Call (Attribute (Name ''actor'') ''line'') [Name ''streamlines''] []),
     Assign (Name ''scene'') (Call (Attribute (Name ''window'') ''Scene'') [] []),
     Assign (Name ''out_dir'')
       (BinOp (Str ''../../data/ds000221/derivatives/dwi/tractography/sub-%s/ses-01/dwi/'')
          ''%'' (Name ''subj'')),
     If (Not (Call (Attribute (Attribute (Name ''os'') ''path'') ''exists'') [Name ''out_dir''] []))
       [Expr (Call (Attribute (Name ''os'') ''makedirs'') [Name ''out_dir''] [])],
     Assign (Name ''det_tractogram_eudx_scene_arr'')
       (Call (Attribute (Name ''window'') ''snapshot'') [Name ''scene'']
          [(''fname'',
            Call (Attribute (Attribute (Name ''os'') ''path'') ''join'')
              [Name ''out_dir'', Str ''tractogram_EuDX.png''] []),
           (''size'', Tuple [Num ''800'', Num ''800'']),
           (''offscreen'', Constant ''True'')]),
     Import ''matplotlib.pyplot'' (Some ''plt''),
     Magic ''matplotlib inline'',
     Assign (Tuple [Name ''fig'', Name ''axes''])
       (Call (Attribute (Name ''plt'') ''subplots'') [] []),
     Expr (Call (Attribute (Name ''axes'') ''imshow'') [Name ''det_tractogram_eudx_scene_arr'']
             [(''origin'', Str ''lower'')]),
     Expr (Call (Attribute (Name ''axes'') ''axis'') [Str ''off''] []),
     Expr (Call (Attribute (Name ''plt'') ''show'') [] [])]"

definition notebook_repaired :: "stmt list list" where
  "notebook_repaired =
     [cell1, cell2, cell3, cell4, cell5, cell6, cell7, cell8, cell9, cell10, cell11, cell12,
      cell13, cell14, []]"

text \<open>A sample of the names the interpreter binds before the first cell runs.\<close>

definition some_builtins :: namespace where
  "some_builtins = [''print'', ''len'', ''range'', ''open'', ''In'', ''Out'', ''get_ipython'']"

section \<open>Properties of the FA sanitization\<close>

lemma setitem_mask_map:
  "setitem_mask a (map p a) v = Inr (map (\<lambda>x. if p x then v else x) a)"
  by (induction a) simp_all

lemma sanitize_fa_map:
  "sanitize_fa a = Inr (map (\<lambda>x. if isnan x then zero64 else x) a)"
  by (simp add: sanitize_fa_def isnan_arr_def setitem_mask_map)

lemma zero64_not_nan: "\<not> isnan zero64"
  by (simp add: isnan_def zero64_def exponent_bits_def)

lemma nan_not_finite: "isnan w \<Longrightarrow> \<not> isfinite w"
  by (simp add: isnan_def isfinite_def)

lemma pos_inf_class: "\<not> isfinite pos_inf \<and> \<not> isnan pos_inf \<and> pos_inf \<noteq> zero64"
  by (simp add: isfinite_def isnan_def pos_inf_def zero64_def exponent_bits_def fraction_bits_def)

lemma quiet_nan_class: "isnan quiet_nan"
  by (simp add: isnan_def quiet_nan_def exponent_bits_def fraction_bits_def)

lemma one_half_class: "isfinite one_half \<and> \<not> isnan one_half"
  by (simp add: isfinite_def isnan_def one_half_def exponent_bits_def fraction_bits_def)

text \<open>
  Claim C1, as the code has it: the sanitization never fails, keeps the shape, replaces
  every NaN voxel with zero and leaves every other voxel unchanged, the finite ones and
  the infinities alike; applied to its own result it changes nothing.
\<close>

theorem sanitize_fa_nan_to_zero:
  "\<exists>b. sanitize_fa a = Inr b \<and> length b = length a \<and>
       (\<forall>i<length a. (isnan (a ! i) \<longrightarrow> b ! i = zero64) \<and>
                      (\<not> isnan (a ! i) \<longrightarrow> b ! i = a ! i)) \<and>
       sanitize_fa b = Inr b"
proof -
  let ?f = "\<lambda>x. if isnan x then zero64 else x"
  have idem: "map ?f (map ?f a) = map ?f a"
    by (simp add: zero64_not_nan)
  have "sanitize_fa (map ?f a) = Inr (map ?f a)"
    unfolding sanitize_fa_map [of "map ?f a"] using idem by simp
  then show ?thesis
    by (simp add: sanitize_fa_map)
qed

theorem sanitize_fa_nan_to_zero_witness:
  "sanitize_fa [quiet_nan, one_half, pos_inf] = Inr [zero64, one_half, pos_inf] \<and>
   (0::nat) < length [quiet_nan, one_half, pos_inf] \<and> isnan quiet_nan \<and>
   (1::nat) < length [quiet_nan, one_half, pos_inf] \<and> \<not> isnan one_half \<and>
   sanitize_fa [zero64, one_half, pos_inf] = Inr [zero64, one_half, pos_inf]"
proof -
  obtain b where b: "sanitize_fa [quiet_nan, one_half, pos_inf] = Inr b"
      "length b = length [quiet_nan, one_half, pos_inf]"
      "\<forall>i<length [quiet_nan, one_half, pos_inf].
         (isnan ([quiet_nan, one_half, pos_inf] ! i) \<longrightarrow> b ! i = zero64) \<and>
         (\<not> isnan ([quiet_nan, one_half, pos_inf] ! i) \<longrightarrow>
            b ! i = [quiet_nan, one_half, pos_inf] ! i)"
      "sanitize_fa b = Inr b"
    using sanitize_fa_nan_to_zero [of "[quiet_nan, one_half, pos_inf]"] by blast
  have b0: "b ! 0 = zero64"
    using b(3) quiet_nan_class by force
  have b1: "b ! 1 = one_half"
    using b(3) one_half_class by force
  have b2: "b ! 2 = pos_inf"
    using b(3) pos_inf_class by force
  have "length b = 3"
    using b(2) by simp
  then have "b = [b ! 0, b ! 1, b ! 2]"
    by (auto simp: list_eq_iff_nth_eq less_Suc_eq eval_nat_numeral)
  then have "b = [zero64, one_half, pos_inf]"
    using b0 b1 b2 by simp
  then show ?thesis
    using b(1) b(4) quiet_nan_class one_half_class by simp
qed

text \<open>
  Claim C1 as the specification words it asks for every non-finite voxel to become
  zero. Positive infinity is not finite, and the sanitization keeps it.
\<close>

theorem sanitize_fa_keeps_infinity:
  "\<not> isfinite pos_inf \<and> sanitize_fa [pos_inf] = Inr [pos_inf] \<and> pos_inf \<noteq> zero64"
  using pos_inf_class by (simp add: sanitize_fa_map)

section \<open>Properties of the response-function file\<close>

lemma save_frf_rows: "save_frf (evals, s0) = map (\<lambda>x. [x]) (evals @ [s0])"
  by (simp add: save_frf_def savetxt_def hstack_def)

text \<open>
  Claim C8, as the code has it: with the three eigenvalues of the response function in
  \<open>response[0]\<close> and the mean S0 signal in \<open>response[1]\<close>, the file holds exactly four
  values, one on each row: the three eigenvalues in their order, then the S0 value. It is
  a 3-vector stacked with one scalar.
\<close>

theorem save_frf_four_values:
  "length (fst response) = 3 \<Longrightarrow>
     save_frf response = map (\<lambda>x. [x]) (fst response @ [snd response]) \<and>
     length (save_frf response) = 4 \<and> length (concat (save_frf response)) = 4"
proof -
  assume three: "length (fst response) = 3"
  have rows: "save_frf response = map (\<lambda>x. [x]) (fst response @ [snd response])"
    using save_frf_rows [of "fst response" "snd response"] by simp
  have "concat (map (\<lambda>x. [x]) xs) = xs" for xs :: "'a list"
    by (induction xs) simp_all
  then have "length (concat (save_frf response)) = length (fst response @ [snd response])"
    using rows by simp
  then show ?thesis
    using rows three by simp
qed

theorem save_frf_four_values_witness:
  "length (fst printed_response) = 3 \<and>
   save_frf printed_response = [[0.00159258], [0.00033926], [0.00033926], [201.48318]] \<and>
   length (save_frf printed_response) = 4"
proof -
  have three: "length (fst printed_response) = 3"
    by (simp add: printed_response_def)
  from save_frf_four_values [OF three] show ?thesis
    using three by (simp add: printed_response_def)
qed

text \<open>
  Claim C8 as the specification words it asks for two stacked 3-vectors, six values.
  The file of the printed response has four.
\<close>

theorem save_frf_not_six_values:
  "length (concat (save_frf printed_response)) = 4 \<and>
   length (concat (save_frf printed_response)) \<noteq> 6"
  by (simp add: save_frf_def savetxt_def hstack_def printed_response_def)

section \<open>The dataset-locator cell does not compile\<close>

text \<open>
  Claim C9: the dataset-locator cell, as written, is not a valid Python program. Its
  line 12 (line 30 of the \<open>.ipynb\<close> file) fails with a syntax error at the name
  \<open>suffix\<close>, which follows the keyword argument \<open>subject=subj\<close> with no comma between
  them. With the comma put in on lines 12 and 13 the cell compiles, to the statements of
  \<open>cell1\<close>.
\<close>

theorem dataset_locator_syntax_error:
  "compile_cell cell1_source =
     Inl (12, SyntaxError
       [NAME ''suffix'', EQUAL, STRING ''preproc'', COMMA, NAME ''extension'', EQUAL,
        STRING ''bval'', COMMA, NAME ''return_type'', EQUAL, STRING ''file'', RPAR, LSQB,
        NUMBER ''0'', RSQB]) \<and>
   compile_cell cell1_repaired = Inr cell1"
  unfolding compile_cell_def cell1_repaired_def cell1_source_def cell1_def by code_simp

section \<open>The repaired notebook stops at the final cell\<close>

lemmas cells = cell1_def cell2_def cell3_def cell4_def cell5_def cell6_def cell7_def cell8_def
  cell9_def cell10_def cell11_def cell12_def cell13_def cell14_def

lemmas bind_defs = import_binds_def from_binds_def top_package_def

text \<open>
  Claim C10: with the commas put in, a run of the notebook from top to bottom, in any
  namespace that does not bind \<open>os\<close> at the start, stops in the fourteenth code cell,
  the final visualization cell, with \<open>NameError\<close> for \<open>os\<close>; and no statement of the
  notebook binds the name \<open>os\<close>.
\<close>

theorem notebook_name_error_os:
  "''os'' \<notin> set ns0 \<Longrightarrow>
     run_notebook tv ns0 notebook_repaired = Inl (14, NameError ''os'') \<and>
     ''os'' \<notin> set (notebook_binds notebook_repaired)"
proof -
  assume free: "''os'' \<notin> set ns0"
  have run: "run_notebook tv ns0 notebook_repaired = Inl (14, NameError ''os'')"
    using free by (simp add: run_notebook_def notebook_repaired_def cells evaluate_def bind_defs)
  have "''os'' \<notin> set (notebook_binds notebook_repaired)"
    by (simp add: notebook_binds_def notebook_repaired_def cells bind_defs)
  with run show ?thesis
    by simp
qed

theorem notebook_name_error_os_witness:
  "''os'' \<notin> set some_builtins \<and>
   run_notebook (\<lambda>c. True) some_builtins notebook_repaired = Inl (14, NameError ''os'')"
proof -
  have free: "''os'' \<notin> set some_builtins"
    by (simp add: some_builtins_def)
  from notebook_name_error_os [OF free, of "\<lambda>c. True"] show ?thesis
    using free by simp
qed

end
